theory Spec2Isabelle
  imports Main "HOL-Library.Sublist"
begin

section \<open>Python values shared by both modules\<close>

text \<open>
  An exception is modelled by the text that \<^verbatim>\<open>str(e)\<close> yields; both modules only
  ever read that text. Every handler in the two modules is \<^verbatim>\<open>except Exception\<close>,
  so the model covers the exceptions that derive from \<^verbatim>\<open>Exception\<close>.
  A call that may raise returns \<open>py_exception + 'a\<close>, with \<open>Inl\<close> for the raise.

  Strings are lists of 8-bit characters, a character beyond ASCII being its UTF-8 bytes
  (all of them above 127); the bullet character of the templates is written as its three
  bytes.

  \<^verbatim>\<open>str.upper()\<close> maps an ASCII string letter by letter. On a string that has a
  character beyond ASCII it follows the Unicode tables of the Python runtime
  (\<^verbatim>\<open>'stra\xdfe'.upper()\<close> is \<^verbatim>\<open>'STRASSE'\<close>); the tables are not part of the repository, so
  they are a parameter, \<open>unicode_upper\<close>, of every function that upper-cases, and each
  theorem holds for every value of it.

  \<^verbatim>\<open>str.lower()\<close> is called only in the test of \<^verbatim>\<open>_generate_aws_guidance\<close> that looks
  for the eight ASCII keys of the service table. The Unicode tables give an ASCII letter for a character beyond ASCII in
  two cases only, U+212A (giving \<^verbatim>\<open>k\<close>, which no key contains) and U+0130 (giving \<^verbatim>\<open>i\<close>
  followed by U+0307, while in every key \<^verbatim>\<open>i\<close> is followed by a letter). So whether a key
  occurs in, or equals, the lower-cased text is decided by the ASCII letters alone, and
  \<open>lower\<close> maps those and leaves every other byte as it is.
\<close>

datatype py_exception = Exception (str_exc: string)

definition truthy :: "string option \<Rightarrow> bool" where
  \<comment> \<open>Truth value of an \<^verbatim>\<open>Optional[str]\<close>: \<^verbatim>\<open>None\<close> and the empty string are falsy.\<close>
  "truthy v = (case v of None \<Rightarrow> False | Some s \<Rightarrow> s \<noteq> [])"

definition lower_char :: "char \<Rightarrow> char" where
  "lower_char c =
     (let n = (of_char c :: nat) in if 65 \<le> n \<and> n \<le> 90 then char_of (n + 32) else c)"

definition upper_char :: "char \<Rightarrow> char" where
  "upper_char c =
     (let n = (of_char c :: nat) in if 97 \<le> n \<and> n \<le> 122 then char_of (n - 32) else c)"

definition lower :: "string \<Rightarrow> string" where
  "lower s = map lower_char s"

definition is_ascii :: "string \<Rightarrow> bool" where
  "is_ascii s = list_all (\<lambda>c. (of_char c :: nat) < 128) s"

definition upper :: "(string \<Rightarrow> string) \<Rightarrow> string \<Rightarrow> string" where
  \<comment> \<open>\<^verbatim>\<open>s.upper()\<close>, over the runtime's Unicode tables.\<close>
  "upper unicode_upper s = (if is_ascii s then map upper_char s else unicode_upper s)"

definition ascii_only :: "string \<Rightarrow> string" where
  \<comment> \<open>A value for \<open>unicode_upper\<close> in runs on ASCII text, where it is never consulted.\<close>
  "ascii_only s = s"

definition nl :: string where
  "nl = [CHR 0x0A]"

definition bullet :: string where
  "bullet = [CHR 0xE2, CHR 0x80, CHR 0xA2]"

section \<open>The knowledge tool: \<^verbatim>\<open>src/crew/tools/aws.py\<close>\<close>

text \<open>
  The only effects the tool's code contains are the two logger calls in its handlers.
  Each method returns its value together with the log records it emitted, in order.
\<close>

datatype log_record = LogError string | LogWarning string

definition generate_search_results ::
  "(string \<Rightarrow> string) \<Rightarrow> string \<Rightarrow> string option \<Rightarrow> string" where
  \<comment> \<open>\<^verbatim>\<open>_generate_search_results\<close>\<close>
  "generate_search_results unicode_upper query service =
     ''AWS Information for: '' @ query @ nl
     @ replicate 50 (CHR ''='') @ nl @ nl
     @ (if truthy service then ''Service Focus: '' @ upper unicode_upper (the service) @ nl @ nl
        else [])
     @ ''Key Points:'' @ nl
     @ bullet @ '' This query relates to AWS services and best practices'' @ nl
     @ bullet @ '' For detailed information, refer to AWS Documentation'' @ nl
     @ bullet @ '' Consider security, cost optimization, and scalability'' @ nl @ nl
     @ ''Recommended Next Steps:'' @ nl
     @ bullet @ '' Check AWS Documentation for ''
       @ (if truthy service then the service else ''relevant services'') @ nl
     @ bullet @ '' Review AWS Well-Architected Framework principles'' @ nl
     @ bullet @ '' Consider using AWS CLI or SDK for implementation'' @ nl @ nl
     @ ''Additional Resources:'' @ nl
     @ bullet @ '' AWS Documentation: https://docs.aws.amazon.com/'' @ nl
     @ bullet @ '' AWS Well-Architected: https://aws.amazon.com/architecture/well-architected/''
       @ nl"

definition aws_services_info :: "(string \<times> string) list" where
  \<comment> \<open>The dict literal of \<^verbatim>\<open>_generate_aws_guidance\<close>, in insertion order.\<close>
  "aws_services_info =
     [(''ec2'', ''Amazon EC2 provides scalable compute capacity in the cloud''),
      (''s3'', ''Amazon S3 is object storage built to store and retrieve any amount of data''),
      (''rds'', ''Amazon RDS makes it easy to set up, operate, and scale a relational database''),
      (''lambda'', ''AWS Lambda lets you run code without provisioning or managing servers''),
      (''vpc'', ''Amazon VPC lets you provision a logically isolated section of AWS Cloud''),
      (''iam'', ''AWS IAM enables you to manage access to AWS services and resources securely''),
      (''cloudformation'', ''AWS CloudFormation gives you an easy way to model AWS resources''),
      (''cloudwatch'',
         ''Amazon CloudWatch is a monitoring service for AWS resources and applications'')]"

definition mentions :: "string \<Rightarrow> string option \<Rightarrow> string \<Rightarrow> bool" where
  \<comment> \<open>The loop's test: \<^verbatim>\<open>service_key in query_lower or (service and service.lower() == service_key)\<close>\<close>
  "mentions query service service_key =
     (sublist service_key (lower query)
      \<or> (truthy service \<and> lower (the service) = service_key))"

definition mentioned_services :: "string \<Rightarrow> string option \<Rightarrow> (string \<times> string) list" where
  "mentioned_services query service =
     filter (\<lambda>(service_key, description). mentions query service service_key)
       aws_services_info"

definition service_line :: "(string \<Rightarrow> string) \<Rightarrow> string \<times> string \<Rightarrow> string" where
  "service_line unicode_upper = (\<lambda>(service_name, description).
     bullet @ '' '' @ upper unicode_upper service_name @ '': '' @ description @ nl)"

definition generate_aws_guidance ::
  "(string \<Rightarrow> string) \<Rightarrow> string \<Rightarrow> string option \<Rightarrow> string" where
  \<comment> \<open>\<^verbatim>\<open>_generate_aws_guidance\<close>\<close>
  "generate_aws_guidance unicode_upper query service =
     ''AWS Guidance for: '' @ query @ nl
     @ replicate 50 (CHR ''='') @ nl @ nl
     @ (if mentioned_services query service \<noteq> []
        then ''Relevant AWS Services:'' @ nl
             @ concat (map (service_line unicode_upper) (mentioned_services query service))
             @ nl
        else [])
     @ ''AWS Best Practices:'' @ nl
     @ bullet @ '' Follow the Well-Architected Framework principles'' @ nl
     @ bullet @ '' Implement proper security measures (IAM, security groups)'' @ nl
     @ bullet @ '' Use infrastructure as code (CloudFormation/CDK)'' @ nl
     @ bullet @ '' Monitor and log your resources (CloudWatch)'' @ nl
     @ bullet @ '' Optimize costs with right-sizing and reserved instances'' @ nl @ nl
     @ ''For specific implementation details, please refer to:'' @ nl
     @ bullet @ '' AWS Documentation: https://docs.aws.amazon.com/'' @ nl
     @ bullet @ '' AWS Architecture Center: https://aws.amazon.com/architecture/'' @ nl"

text \<open>
  The three lookup methods are reached through \<^verbatim>\<open>self\<close>. The bodies that call them take
  the callee as an argument (any method, raising or not), and the tool's own methods
  are plugged in below; so each \<^verbatim>\<open>try\<close>/\<^verbatim>\<open>except\<close> of the source is a branch here.
\<close>

type_synonym 'a tool_method = "string \<Rightarrow> string option \<Rightarrow> (py_exception + 'a) \<times> log_record list"

definition search_aws_docs :: "string option tool_method" where
  \<comment> \<open>\<^verbatim>\<open>_search_aws_docs\<close>: the \<^verbatim>\<open>try\<close> body is \<^verbatim>\<open>return None\<close>.\<close>
  "search_aws_docs query service = (Inr None, [])"

definition web_search_aws_with :: "string tool_method \<Rightarrow> string option tool_method" where
  \<comment> \<open>\<^verbatim>\<open>_web_search_aws\<close>, over the \<^verbatim>\<open>_generate_search_results\<close> it calls: the unused
      \<^verbatim>\<open>search_query\<close> is built, the results are returned, a raise is logged and gives \<^verbatim>\<open>None\<close>.\<close>
  "web_search_aws_with gen query service =
     (case gen query service of
        (Inr r, logs) \<Rightarrow> (Inr (Some r), logs)
      | (Inl e, logs) \<Rightarrow> (Inr None, logs @ [LogWarning (''Web search failed: '' @ str_exc e)]))"

definition web_search_aws :: "(string \<Rightarrow> string) \<Rightarrow> string option tool_method" where
  "web_search_aws unicode_upper =
     web_search_aws_with
       (\<lambda>query service. (Inr (generate_search_results unicode_upper query service), []))"

definition error_reply :: "py_exception \<Rightarrow> string" where
  "error_reply e =
     ''I encountered an error while searching for AWS information: '' @ str_exc e
     @ ''. Please try rephrasing your question.''"

definition run_with ::
  "string option tool_method \<Rightarrow> string option tool_method \<Rightarrow> string tool_method
   \<Rightarrow> string tool_method" where
  \<comment> \<open>\<^verbatim>\<open>_run\<close>, over the three methods it calls on \<^verbatim>\<open>self\<close>.\<close>
  "run_with docs web guidance query service =
     (let handler = (\<lambda>e logs.
            (Inr (error_reply e), logs @ [LogError (''Error in AWS Knowledge Tool: '' @ str_exc e)]))
      in case docs query service of
           (Inl e, l1) \<Rightarrow> handler e l1
         | (Inr aws_info, l1) \<Rightarrow>
             if truthy aws_info then (Inr (the aws_info), l1)
             else (case web query service of
                     (Inl e, l2) \<Rightarrow> handler e (l1 @ l2)
                   | (Inr web_results, l2) \<Rightarrow>
                       if truthy web_results then (Inr (the web_results), l1 @ l2)
                       else (case guidance query service of
                               (Inl e, l3) \<Rightarrow> handler e (l1 @ l2 @ l3)
                             | (Inr g, l3) \<Rightarrow> (Inr g, l1 @ l2 @ l3))))"

definition run :: "(string \<Rightarrow> string) \<Rightarrow> string tool_method" where
  \<comment> \<open>\<^verbatim>\<open>SimplifiedAWSKnowledgeTool._run\<close>\<close>
  "run unicode_upper =
     run_with search_aws_docs (web_search_aws unicode_upper)
       (\<lambda>query service. (Inr (generate_aws_guidance unicode_upper query service), []))"

section \<open>The service: \<^verbatim>\<open>api.py\<close>\<close>

record QueryRequest =
  query :: string
  topic :: "string option"

record QueryResponse =
  success :: bool
  result :: string
  error :: "string option"

text \<open>
  The \<^verbatim>\<open>inputs\<close> dict of \<^verbatim>\<open>process_query\<close>, in insertion order.
\<close>

type_synonym pipeline_input = "(string \<times> string) list"

subsection \<open>The agent framework the service calls\<close>

text \<open>
  The framework (\<^verbatim>\<open>crewai\<close> and the \<^verbatim>\<open>AWSCrew\<close> class built on it) is outside the
  service; the service's code is verified for every behaviour of it. Each call the
  service makes on the framework either raises or returns: a pipeline by what
  \<^verbatim>\<open>kickoff\<close> does with the inputs, the handle by whether it has the attribute
  \<^verbatim>\<open>crew\<close> (and what calling it does) and by what its six factory methods do, the
  framework by what the two constructors do.
\<close>

datatype crew_output = CrewOutput (str_output: string)

datatype agent = Agent string

datatype task = Task string

datatype process = sequential | hierarchical

record Crew =
  kickoff :: "pipeline_input \<Rightarrow> py_exception + crew_output"

record AWSCrew =
  crew :: "(py_exception + Crew) option"
  aws_query_agent :: "py_exception + agent"
  search_agent :: "py_exception + agent"
  report_agent :: "py_exception + agent"
  aws_query_task :: "py_exception + task"
  search_task :: "py_exception + task"
  report_task :: "py_exception + task"

record framework =
  new_AWSCrew :: "py_exception + AWSCrew"
  new_Crew :: "agent list \<Rightarrow> task list \<Rightarrow> process \<Rightarrow> bool \<Rightarrow> py_exception + Crew"

text \<open>
  The calls made on the framework are the service's effects. Every function of the
  service returns, beside its value or exception and the new globals, the calls it
  made in order, each with the exception it raised, if any.
\<close>

datatype call =
    Construct_AWSCrew
  | Call_crew
  | Call_kickoff pipeline_input
  | Call_aws_query_agent
  | Call_search_agent
  | Call_report_agent
  | Call_aws_query_task
  | Call_search_task
  | Call_report_task
  | Construct_Crew "agent list" "task list" process bool

type_synonym event = "call \<times> py_exception option"

record globals =
  crew_instance :: "AWSCrew option"

type_synonym 'a action = "globals \<Rightarrow> (py_exception + 'a) \<times> globals \<times> event list"

definition returns :: "'a \<Rightarrow> 'a action" where
  "returns x g = (Inr x, g, [])"

definition raises :: "py_exception \<Rightarrow> 'a action" where
  "raises e g = (Inl e, g, [])"

definition external :: "call \<Rightarrow> py_exception + 'a \<Rightarrow> 'a action" where
  \<comment> \<open>One call on the framework, with the outcome the framework gives it.\<close>
  "external c outcome g =
     (outcome, g, [(c, case outcome of Inl e \<Rightarrow> Some e | Inr _ \<Rightarrow> None)])"

definition and_then :: "'a action \<Rightarrow> ('a \<Rightarrow> 'b action) \<Rightarrow> 'b action" where
  \<comment> \<open>Sequencing: an exception of the first statement skips the rest.\<close>
  "and_then m f g =
     (case m g of
        (Inl e, g1, t1) \<Rightarrow> (Inl e, g1, t1)
      | (Inr x, g1, t1) \<Rightarrow> (case f x g1 of (r, g2, t2) \<Rightarrow> (r, g2, t1 @ t2)))"

definition try_except :: "'a action \<Rightarrow> (py_exception \<Rightarrow> 'a action) \<Rightarrow> 'a action" where
  \<comment> \<open>\<^verbatim>\<open>try: m  except Exception as e: h\<close>\<close>
  "try_except m h g =
     (case m g of
        (Inl e, g1, t1) \<Rightarrow> (case h e g1 of (r, g2, t2) \<Rightarrow> (r, g2, t1 @ t2))
      | (Inr x, g1, t1) \<Rightarrow> (Inr x, g1, t1))"

subsection \<open>The service's functions\<close>

definition get_crew_instance :: "framework \<Rightarrow> AWSCrew action" where
  "get_crew_instance fw g =
     (case crew_instance g of
        None \<Rightarrow>
          and_then (external Construct_AWSCrew (new_AWSCrew fw))
            (\<lambda>ci g1. (Inr ci, g1\<lparr>crew_instance := Some ci\<rparr>, [])) g
      | Some ci \<Rightarrow> returns ci g)"

definition manual_crew :: "framework \<Rightarrow> AWSCrew \<Rightarrow> Crew action" where
  \<comment> \<open>The \<^verbatim>\<open>else\<close> branch's \<^verbatim>\<open>Crew(agents=[...], tasks=[...], process=Process.sequential,
      verbose=True)\<close>: the six factory calls in the order Python evaluates them, then the
      constructor.\<close>
  "manual_crew fw ci =
     and_then (external Call_aws_query_agent (aws_query_agent ci)) (\<lambda>a1.
     and_then (external Call_search_agent (search_agent ci)) (\<lambda>a2.
     and_then (external Call_report_agent (report_agent ci)) (\<lambda>a3.
     and_then (external Call_aws_query_task (aws_query_task ci)) (\<lambda>t1.
     and_then (external Call_search_task (search_task ci)) (\<lambda>t2.
     and_then (external Call_report_task (report_task ci)) (\<lambda>t3.
       external (Construct_Crew [a1, a2, a3] [t1, t2, t3] sequential True)
         (new_Crew fw [a1, a2, a3] [t1, t2, t3] sequential True)))))))"

definition run_crew_sync :: "framework \<Rightarrow> pipeline_input \<Rightarrow> string action" where
  "run_crew_sync fw inputs =
     try_except
       (and_then (get_crew_instance fw) (\<lambda>ci.
        and_then
          (case crew ci of
             Some crew_call \<Rightarrow>
               and_then (external Call_crew crew_call) (\<lambda>c.
                 external (Call_kickoff inputs) (kickoff c inputs))
           | None \<Rightarrow>
               and_then (manual_crew fw ci) (\<lambda>c.
                 external (Call_kickoff inputs) (kickoff c inputs)))
          (\<lambda>res. returns (str_output res))))
       (\<lambda>e. raises (Exception (''Error running crew: '' @ str_exc e)))"

definition health_check :: "(string \<times> string) list action" where
  "health_check = returns [(''status'', ''healthy''), (''message'', ''AWS Expert API is running'')]"

definition process_query :: "framework \<Rightarrow> QueryRequest \<Rightarrow> QueryResponse action" where
  \<comment> \<open>The executor runs \<^verbatim>\<open>run_crew_sync\<close> to completion and the handler awaits it: for one
      request that is a plain call, whose exception surfaces at the \<^verbatim>\<open>await\<close>.\<close>
  "process_query fw request =
     try_except
       (and_then
          (run_crew_sync fw
             [(''topic'', if truthy (topic request) then the (topic request) else query request),
              (''query'', query request)])
          (\<lambda>res. returns \<lparr>success = True, result = res, error = None\<rparr>))
       (\<lambda>e. returns \<lparr>success = False, result = [], error = Some (str_exc e)\<rparr>)"

subsection \<open>Reading a trace\<close>

definition is_fallback_call :: "call \<Rightarrow> bool" where
  \<comment> \<open>The calls that only the manual-construction branch makes.\<close>
  "is_fallback_call c =
     (case c of
        Construct_AWSCrew \<Rightarrow> False
      | Call_crew \<Rightarrow> False
      | Call_kickoff _ \<Rightarrow> False
      | _ \<Rightarrow> True)"

definition is_kickoff :: "call \<Rightarrow> bool" where
  "is_kickoff c = (case c of Call_kickoff _ \<Rightarrow> True | _ \<Rightarrow> False)"

subsection \<open>Frameworks to run the service on\<close>

definition echo_crew :: Crew where
  \<comment> \<open>A stub pipeline: answers with the topic it was given.\<close>
  "echo_crew = \<lparr>kickoff = (\<lambda>inputs.
     case map_of inputs ''topic'' of
       Some t \<Rightarrow> Inr (CrewOutput (''report on: '' @ t))
     | None \<Rightarrow> Inl (Exception ''missing topic''))\<rparr>"

definition failing_crew :: Crew where
  \<comment> \<open>A pipeline whose execution raises.\<close>
  "failing_crew = \<lparr>kickoff = (\<lambda>inputs. Inl (Exception ''quota exceeded''))\<rparr>"

definition handle_of :: "(py_exception + Crew) option \<Rightarrow> AWSCrew" where
  \<comment> \<open>A handle with the given \<^verbatim>\<open>crew\<close> attribute and working factory methods.\<close>
  "handle_of c =
     \<lparr>crew = c,
      aws_query_agent = Inr (Agent ''aws_query_agent''),
      search_agent = Inr (Agent ''search_agent''),
      report_agent = Inr (Agent ''report_agent''),
      aws_query_task = Inr (Task ''aws_query_task''),
      search_task = Inr (Task ''search_task''),
      report_task = Inr (Task ''report_task'')\<rparr>"

definition framework_of :: "(py_exception + Crew) option \<Rightarrow> framework" where
  \<comment> \<open>A framework whose handle is \<open>handle_of c\<close> and whose \<^verbatim>\<open>Crew\<close> constructor gives
      the stub pipeline.\<close>
  "framework_of c =
     \<lparr>new_AWSCrew = Inr (handle_of c),
      new_Crew = (\<lambda>agents tasks proc verbose. Inr echo_crew)\<rparr>"

definition fresh :: globals where
  \<comment> \<open>The module's globals after import: \<^verbatim>\<open>crew_instance = None\<close>.\<close>
  "fresh = \<lparr>crew_instance = None\<rparr>"

section \<open>Properties of the knowledge tool\<close>

lemma generate_search_results_nonempty: "generate_search_results up q svc \<noteq> []"
  by (simp add: generate_search_results_def)

lemma sublist_service_line: "sublist description (service_line up (service_key, description))"
proof -
  have "service_line up (service_key, description)
        = (bullet @ '' '' @ upper up service_key @ '': '') @ description @ nl"
    by (simp add: service_line_def)
  then show ?thesis
    by (metis sublist_appendI)
qed

lemma sublist_concat_member: "x \<in> set xss \<Longrightarrow> sublist x (concat xss)"
proof (induction xss)
  case Nil
  then show ?case by simp
next
  case (Cons a xss)
  show ?case
  proof (cases "x = a")
    case True
    then show ?thesis by simp
  next
    case False
    with Cons have "sublist x (concat xss)" by simp
    then show ?thesis
      by (simp add: sublist_append)
  qed
qed

lemma guidance_shape:
  assumes "mentioned_services q svc \<noteq> []"
  shows "\<exists>ps ss. generate_aws_guidance up q svc
     = ps @ concat (map (service_line up) (mentioned_services q svc)) @ ss"
proof -
  let ?ms = "concat (map (service_line up) (mentioned_services q svc))"
  have "generate_aws_guidance up q svc
        = (''AWS Guidance for: '' @ q @ nl @ replicate 50 (CHR ''='') @ nl @ nl
           @ ''Relevant AWS Services:'' @ nl)
          @ ?ms
          @ (nl @ ''AWS Best Practices:'' @ nl
     @ bullet @ '' Follow the Well-Architected Framework principles'' @ nl
     @ bullet @ '' Implement proper security measures (IAM, security groups)'' @ nl
     @ bullet @ '' Use infrastructure as code (CloudFormation/CDK)'' @ nl
     @ bullet @ '' Monitor and log your resources (CloudWatch)'' @ nl
     @ bullet @ '' Optimize costs with right-sizing and reserved instances'' @ nl @ nl
     @ ''For specific implementation details, please refer to:'' @ nl
     @ bullet @ '' AWS Documentation: https://docs.aws.amazon.com/'' @ nl
     @ bullet @ '' AWS Architecture Center: https://aws.amazon.com/architecture/'' @ nl)"
    using assms by (simp add: generate_aws_guidance_def)
  then show ?thesis by blast
qed

text \<open>
  What \<^verbatim>\<open>_run\<close> returns: the second method always answers with a non-empty text, so the
  result is the text of \<^verbatim>\<open>_generate_search_results\<close>, with no log record, and the third
  method, the only one that reads the service table, is never reached.
\<close>

lemma run_returns_search_results:
  "run up q svc = (Inr (generate_search_results up q svc), [])"
  by (simp add: run_def run_with_def search_aws_docs_def web_search_aws_def
      web_search_aws_with_def truthy_def generate_search_results_nonempty)

text \<open>
  C7, as the spec states it, fails: the text \<^verbatim>\<open>_run\<close> returns is not drawn from the static
  mapping. For the query of the module's own test, which names EC2 in both arguments,
  the returned text does not contain the EC2 description. (Both arguments are ASCII, so
  the Unicode tables are not consulted.)
\<close>

theorem run_omits_description_counterexample:
  "mentions ''How to set up an EC2 instance'' (Some ''ec2'') ''ec2''
   \<and> map_of aws_services_info ''ec2''
       = Some ''Amazon EC2 provides scalable compute capacity in the cloud''
   \<and> \<not> isl (fst (run ascii_only ''How to set up an EC2 instance'' (Some ''ec2'')))
   \<and> \<not> sublist ''Amazon EC2 provides scalable compute capacity in the cloud''
         (projr (fst (run ascii_only ''How to set up an EC2 instance'' (Some ''ec2''))))"
  by code_simp

text \<open>
  C7, amended. The mapping lookup belongs to \<^verbatim>\<open>_generate_aws_guidance\<close>: for every entry
  of the static mapping whose key occurs in the lower-cased query, or equals the
  lower-cased non-empty service argument, the text \<^verbatim>\<open>_generate_aws_guidance\<close> returns
  contains that entry's description.
\<close>

theorem guidance_includes_description:
  assumes "(service_key, description) \<in> set aws_services_info"
    and "mentions q svc service_key"
  shows "sublist description (generate_aws_guidance up q svc)"
proof -
  let ?ms = "mentioned_services q svc"
  from assms have mem: "(service_key, description) \<in> set ?ms"
    by (simp add: mentioned_services_def)
  then have ne: "?ms \<noteq> []" by auto
  from mem
  have "service_line up (service_key, description) \<in> set (map (service_line up) ?ms)"
    by force
  then have "sublist (service_line up (service_key, description))
      (concat (map (service_line up) ?ms))"
    by (rule sublist_concat_member)
  with sublist_service_line
  have inner: "sublist description (concat (map (service_line up) ?ms))"
    by (rule sublist_order.order_trans)
  from guidance_shape [OF ne] obtain ps ss where
    "generate_aws_guidance up q svc = ps @ concat (map (service_line up) ?ms) @ ss"
    by blast
  moreover have "sublist (concat (map (service_line up) ?ms))
      (ps @ concat (map (service_line up) ?ms) @ ss)"
    by (rule sublist_appendI)
  ultimately show ?thesis
    using inner sublist_order.order_trans by metis
qed

theorem guidance_includes_description_witness:
  "(''s3'', ''Amazon S3 is object storage built to store and retrieve any amount of data'')
     \<in> set aws_services_info
   \<and> mentions ''S3 bucket permissions'' None ''s3''
   \<and> sublist ''Amazon S3 is object storage built to store and retrieve any amount of data''
        (generate_aws_guidance ascii_only ''S3 bucket permissions'' None)"
proof -
  have a: "(''s3'', ''Amazon S3 is object storage built to store and retrieve any amount of data'')
     \<in> set aws_services_info"
    by (simp add: aws_services_info_def)
  have b: "mentions ''S3 bucket permissions'' None ''s3''"
    by code_simp
  from guidance_includes_description [OF a b] a b show ?thesis by simp
qed

text \<open>
  C10. \<^verbatim>\<open>_run\<close> is total: whatever the three methods it calls do, it returns a string and
  never raises, and so does the tool's own \<^verbatim>\<open>_run\<close> on every input. When the method
  reached raises \<open>e\<close>, the string returned is the error reply for \<open>e\<close>, which begins with
  \<^verbatim>\<open>I encountered an error while searching for AWS information:\<close>.
\<close>

theorem run_never_raises:
  "(\<exists>r logs. run_with docs web guidance q svc = (Inr r, logs))
   \<and> (\<exists>r logs. run up q svc = (Inr r, logs))
   \<and> (fst (docs q svc) = Inl e
        \<longrightarrow> fst (run_with docs web guidance q svc) = Inr (error_reply e))
   \<and> (fst (docs q svc) = Inr a \<and> \<not> truthy a \<and> fst (web q svc) = Inl e
        \<longrightarrow> fst (run_with docs web guidance q svc) = Inr (error_reply e))
   \<and> (fst (docs q svc) = Inr a \<and> \<not> truthy a \<and> fst (web q svc) = Inr w \<and> \<not> truthy w
        \<and> fst (guidance q svc) = Inl e
        \<longrightarrow> fst (run_with docs web guidance q svc) = Inr (error_reply e))
   \<and> prefix ''I encountered an error while searching for AWS information:'' (error_reply e)"
proof -
  have total: "\<exists>r logs. run_with docs web guidance q svc = (Inr r, logs)"
    by (auto simp: run_with_def Let_def split: prod.splits sum.splits)
  have own: "\<exists>r logs. run up q svc = (Inr r, logs)"
    by (auto simp: run_def run_with_def Let_def split: prod.splits sum.splits)
  have first: "fst (docs q svc) = Inl e
        \<longrightarrow> fst (run_with docs web guidance q svc) = Inr (error_reply e)"
    by (auto simp: run_with_def Let_def split: prod.splits sum.splits)
  have second: "fst (docs q svc) = Inr a \<and> \<not> truthy a \<and> fst (web q svc) = Inl e
        \<longrightarrow> fst (run_with docs web guidance q svc) = Inr (error_reply e)"
    by (auto simp: run_with_def Let_def split: prod.splits sum.splits)
  have third: "fst (docs q svc) = Inr a \<and> \<not> truthy a \<and> fst (web q svc) = Inr w \<and> \<not> truthy w
        \<and> fst (guidance q svc) = Inl e
        \<longrightarrow> fst (run_with docs web guidance q svc) = Inr (error_reply e)"
    by (auto simp: run_with_def Let_def split: prod.splits sum.splits)
  have reply: "prefix ''I encountered an error while searching for AWS information:''
        (error_reply e)"
    by (simp add: error_reply_def)
  from total own first second third reply show ?thesis by blast
qed

theorem run_never_raises_witness:
  "fst ((\<lambda>q s. (Inl (Exception ''timeout''), [])) ''S3 bucket permissions'' (Some ''s3''))
     = (Inl (Exception ''timeout'') :: py_exception + string option)
   \<and> fst (run_with (\<lambda>q s. (Inl (Exception ''timeout''), [])) (web_search_aws ascii_only)
            (\<lambda>q s. (Inr (generate_aws_guidance ascii_only q s), []))
            ''S3 bucket permissions'' (Some ''s3''))
     = Inr (error_reply (Exception ''timeout''))
   \<and> fst (search_aws_docs ''S3 bucket permissions'' (Some ''s3'')) = Inr None
   \<and> \<not> truthy None
   \<and> fst ((\<lambda>q s. (Inl (Exception ''no route''), [])) ''S3 bucket permissions'' (Some ''s3''))
     = (Inl (Exception ''no route'') :: py_exception + string option)
   \<and> fst (run_with search_aws_docs (\<lambda>q s. (Inl (Exception ''no route''), []))
            (\<lambda>q s. (Inr (generate_aws_guidance ascii_only q s), []))
            ''S3 bucket permissions'' (Some ''s3''))
     = Inr (error_reply (Exception ''no route''))
   \<and> fst ((\<lambda>q s. (Inr None, [])) ''S3 bucket permissions'' (Some ''s3''))
     = (Inr None :: py_exception + string option)
   \<and> fst ((\<lambda>q s. (Inl (Exception ''bad key''), [])) ''S3 bucket permissions'' (Some ''s3''))
     = (Inl (Exception ''bad key'') :: py_exception + string)
   \<and> fst (run_with search_aws_docs (\<lambda>q s. (Inr None, []))
            (\<lambda>q s. (Inl (Exception ''bad key''), []))
            ''S3 bucket permissions'' (Some ''s3''))
     = Inr (error_reply (Exception ''bad key''))
   \<and> prefix ''I encountered an error while searching for AWS information:''
        (error_reply (Exception ''bad key''))"
proof -
  have nt: "\<not> truthy None"
    by (simp add: truthy_def)
  have d: "fst (search_aws_docs ''S3 bucket permissions'' (Some ''s3'')) = Inr None"
    by (simp add: search_aws_docs_def)
  note a = run_never_raises
      [of "\<lambda>q s. (Inl (Exception ''timeout''), [])" "web_search_aws ascii_only"
          "\<lambda>q s. (Inr (generate_aws_guidance ascii_only q s), [])"
          "''S3 bucket permissions''" "Some ''s3''" ascii_only "Exception ''timeout''" None None]
  note b = run_never_raises
      [of search_aws_docs "\<lambda>q s. (Inl (Exception ''no route''), [])"
          "\<lambda>q s. (Inr (generate_aws_guidance ascii_only q s), [])"
          "''S3 bucket permissions''" "Some ''s3''" ascii_only "Exception ''no route''" None None]
  note c = run_never_raises
      [of search_aws_docs "\<lambda>q s. (Inr None, [])"
          "\<lambda>q s. (Inl (Exception ''bad key''), [])"
          "''S3 bucket permissions''" "Some ''s3''" ascii_only "Exception ''bad key''" None None]
  from a have 1: "fst (run_with (\<lambda>q s. (Inl (Exception ''timeout''), []))
            (web_search_aws ascii_only)
            (\<lambda>q s. (Inr (generate_aws_guidance ascii_only q s), []))
            ''S3 bucket permissions'' (Some ''s3''))
     = Inr (error_reply (Exception ''timeout''))"
    by simp
  from b d nt have 2: "fst (run_with search_aws_docs (\<lambda>q s. (Inl (Exception ''no route''), []))
            (\<lambda>q s. (Inr (generate_aws_guidance ascii_only q s), []))
            ''S3 bucket permissions'' (Some ''s3''))
     = Inr (error_reply (Exception ''no route''))"
    by simp
  from c d nt have 3: "fst (run_with search_aws_docs (\<lambda>q s. (Inr None, []))
            (\<lambda>q s. (Inl (Exception ''bad key''), []))
            ''S3 bucket permissions'' (Some ''s3''))
     = Inr (error_reply (Exception ''bad key''))"
    by simp
  from c have 4: "prefix ''I encountered an error while searching for AWS information:''
        (error_reply (Exception ''bad key''))"
    by blast
  from 1 2 3 4 d nt show ?thesis by simp
qed

section \<open>Properties of the service\<close>

lemmas unfold_service = run_crew_sync_def manual_crew_def get_crew_instance_def try_except_def
  and_then_def external_def returns_def raises_def

lemmas unfold_stubs = framework_of_def handle_of_def echo_crew_def failing_crew_def fresh_def

lemma triple_eq: "x = (fst x, fst (snd x), snd (snd x))"
  by simp

lemma process_query_run:
  "process_query fw request g =
     (case run_crew_sync fw
             [(''topic'', if truthy (topic request) then the (topic request) else query request),
              (''query'', query request)] g of
        (Inr res, g1, t1) \<Rightarrow> (Inr \<lparr>success = True, result = res, error = None\<rparr>, g1, t1)
      | (Inl e, g1, t1) \<Rightarrow>
          (Inr \<lparr>success = False, result = [], error = Some (str_exc e)\<rparr>, g1, t1))"
  by (simp add: process_query_def try_except_def and_then_def returns_def
      split: prod.splits sum.splits)

lemma kickoff_inputs:
  assumes "run_crew_sync fw inputs g = (r, g', tr)" and "(Call_kickoff i, out) \<in> set tr"
  shows "i = inputs"
  using assms
  by (auto simp: unfold_service split: option.splits sum.splits prod.splits if_splits)


lemma kickoff_reached_primary:
  assumes "fst (get_crew_instance fw g) = Inr ci" and "crew ci = Some (Inr c)"
  shows "\<exists>out. (Call_kickoff inputs, out) \<in> set (snd (snd (run_crew_sync fw inputs g)))"
proof -
  obtain g1 t0 where got: "get_crew_instance fw g = (Inr ci, g1, t0)"
    using assms(1) by (cases "get_crew_instance fw g") auto
  show ?thesis
  proof (cases "kickoff c inputs")
    case (Inl e)
    with got assms(2)
    have "snd (snd (run_crew_sync fw inputs g))
          = t0 @ [(Call_crew, None), (Call_kickoff inputs, Some e)]"
      by (simp add: run_crew_sync_def try_except_def and_then_def external_def
          returns_def raises_def)
    then show ?thesis by auto
  next
    case (Inr res)
    with got assms(2)
    have "snd (snd (run_crew_sync fw inputs g))
          = t0 @ [(Call_crew, None), (Call_kickoff inputs, None)]"
      by (simp add: run_crew_sync_def try_except_def and_then_def external_def
          returns_def raises_def)
    then show ?thesis by auto
  qed
qed

lemma process_query_trace:
  "snd (snd (process_query fw request g))
     = snd (snd (run_crew_sync fw
             [(''topic'', if truthy (topic request) then the (topic request) else query request),
              (''query'', query request)] g))"
  by (simp add: process_query_run split: prod.splits sum.splits)

text \<open>
  C1, as the spec states it, fails. On a framework whose handle has the attribute
  \<^verbatim>\<open>crew\<close> and whose pipeline raises in \<^verbatim>\<open>kickoff\<close>, \<^verbatim>\<open>run_crew_sync\<close> makes three calls
  (the handle's constructor, \<^verbatim>\<open>crew()\<close>, \<^verbatim>\<open>kickoff\<close>) and reports the failure; none of the
  manual-construction calls is made, although on the same framework the manual branch,
  had it been taken, returns a report.
\<close>

theorem primary_failure_without_fallback_counterexample:
  "run_crew_sync (framework_of (Some (Inr failing_crew)))
       [(''topic'', ''s3''), (''query'', ''s3'')] fresh
     = (Inl (Exception ''Error running crew: quota exceeded''),
        \<lparr>crew_instance = Some (handle_of (Some (Inr failing_crew)))\<rparr>,
        [(Construct_AWSCrew, None), (Call_crew, None),
         (Call_kickoff [(''topic'', ''s3''), (''query'', ''s3'')],
            Some (Exception ''quota exceeded''))])
   \<and> fst (run_crew_sync (framework_of None) [(''topic'', ''s3''), (''query'', ''s3'')] fresh)
     = Inr ''report on: s3''"
  by (simp add: unfold_service unfold_stubs)

text \<open>
  C1, amended. The branch is chosen by the handle's shape alone: a run of
  \<^verbatim>\<open>run_crew_sync\<close> makes a manual-construction call exactly when the handle it obtained
  has no attribute \<^verbatim>\<open>crew\<close>, and calls \<^verbatim>\<open>crew()\<close> exactly when the handle has it. So a
  run whose primary branch raises makes no manual-construction call.
\<close>

theorem fallback_iff_no_crew_attribute:
  assumes "run_crew_sync fw inputs g = (r, g', tr)"
  shows "((\<exists>ev \<in> set tr. is_fallback_call (fst ev))
           \<longleftrightarrow> (\<exists>ci. fst (get_crew_instance fw g) = Inr ci \<and> crew ci = None))
       \<and> ((\<exists>ev \<in> set tr. fst ev = Call_crew)
           \<longleftrightarrow> (\<exists>ci c. fst (get_crew_instance fw g) = Inr ci \<and> crew ci = Some c))"
  using assms
  by (auto simp: unfold_service is_fallback_call_def
      split: option.splits sum.splits prod.splits if_splits)

theorem fallback_iff_no_crew_attribute_witness:
  "fst (get_crew_instance (framework_of None) fresh) = Inr (handle_of None)
   \<and> crew (handle_of None) = None
   \<and> (\<exists>ev \<in> set (snd (snd (run_crew_sync (framework_of None)
                                 [(''topic'', ''s3''), (''query'', ''s3'')] fresh))).
         is_fallback_call (fst ev))
   \<and> \<not> (\<exists>ev \<in> set (snd (snd (run_crew_sync (framework_of None)
                                 [(''topic'', ''s3''), (''query'', ''s3'')] fresh))).
         fst ev = Call_crew)"
proof -
  have a: "fst (get_crew_instance (framework_of None) fresh) = Inr (handle_of None)"
    by (simp add: get_crew_instance_def and_then_def external_def framework_of_def fresh_def)
  have b: "crew (handle_of None) = None"
    by (simp add: handle_of_def)
  from fallback_iff_no_crew_attribute [OF triple_eq] a b show ?thesis
    by simp
qed

text \<open>
  C2. The specification requires a request whose query is empty to be rejected before
  the adapter is invoked, and the chat front end of the repository does reject it
  (\<^verbatim>\<open>ui.py\<close> dispatches only when \<^verbatim>\<open>user_input.strip()\<close> is non-empty). \<^verbatim>\<open>api.py\<close> does
  not: \<^verbatim>\<open>QueryRequest\<close> declares \<^verbatim>\<open>query\<close> as a plain \<^verbatim>\<open>str\<close>, \<^verbatim>\<open>process_query\<close> has no check
  (\<^verbatim>\<open>HTTPException\<close> is imported and never used), and the request is served like any
  other. Here the code is run on the request \<^verbatim>\<open>{"query": ""}\<close> with a framework whose
  pipeline works: the handle is constructed, \<^verbatim>\<open>crew()\<close> and \<^verbatim>\<open>kickoff\<close> are called, \<^verbatim>\<open>kickoff\<close>
  with the empty query, and the response reports success.
\<close>

theorem empty_query_reaches_kickoff:
  "process_query (framework_of (Some (Inr echo_crew))) \<lparr>query = '''', topic = None\<rparr> fresh
     = (Inr \<lparr>success = True, result = ''report on: '', error = None\<rparr>,
        \<lparr>crew_instance = Some (handle_of (Some (Inr echo_crew)))\<rparr>,
        [(Construct_AWSCrew, None), (Call_crew, None),
         (Call_kickoff [(''topic'', ''''), (''query'', '''')], None)])"
  by (simp add: process_query_def unfold_service unfold_stubs truthy_def)

text \<open>
  C3. Every run of \<^verbatim>\<open>process_query\<close> returns a response (it never raises), and the
  response satisfies the envelope invariant: when \<^verbatim>\<open>success\<close> is true the \<^verbatim>\<open>error\<close> field
  is \<^verbatim>\<open>None\<close>, and when \<^verbatim>\<open>success\<close> is false the \<^verbatim>\<open>result\<close> field is the empty string.
\<close>

theorem response_envelope_invariant:
  assumes "process_query fw request g = (r, g', tr)"
  shows "\<exists>resp. r = Inr resp
           \<and> (success resp \<longrightarrow> error resp = None)
           \<and> (\<not> success resp \<longrightarrow> result resp = [])"
  using assms
  by (auto simp: process_query_run split: prod.splits sum.splits)

theorem response_envelope_invariant_witness:
  "\<exists>resp. fst (process_query (framework_of (Some (Inr failing_crew)))
                  \<lparr>query = ''How do I secure an S3 bucket?'', topic = None\<rparr> fresh) = Inr resp
          \<and> \<not> success resp \<and> result resp = []
          \<and> error resp = Some ''Error running crew: quota exceeded''"
proof -
  let ?run = "process_query (framework_of (Some (Inr failing_crew)))
                  \<lparr>query = ''How do I secure an S3 bucket?'', topic = None\<rparr> fresh"
  from response_envelope_invariant [OF triple_eq, of "framework_of (Some (Inr failing_crew))"
      "\<lparr>query = ''How do I secure an S3 bucket?'', topic = None\<rparr>" fresh]
  obtain resp where r: "fst ?run = Inr resp" and inv: "\<not> success resp \<longrightarrow> result resp = []"
    by blast
  have "fst ?run = Inr \<lparr>success = False, result = [],
                        error = Some ''Error running crew: quota exceeded''\<rparr>"
    by (simp add: process_query_def unfold_service unfold_stubs truthy_def)
  with r have f: "\<not> success resp" and e: "error resp = Some ''Error running crew: quota exceeded''"
    by auto
  from inv f have "result resp = []" by blast
  with r f e show ?thesis by blast
qed

text \<open>
  C4, as the spec states it, fails on the text of the message: the prefix the code
  puts before the original error text is \<^verbatim>\<open>Error running crew: \<close>, not
  \<^verbatim>\<open>Error running pipeline: \<close>. Here \<^verbatim>\<open>crew()\<close> raises \<^verbatim>\<open>not callable\<close>.
\<close>

theorem wrap_prefix_counterexample:
  "fst (run_crew_sync (framework_of (Some (Inl (Exception ''not callable''))))
          [(''topic'', ''s3''), (''query'', ''s3'')] fresh)
     = Inl (Exception ''Error running crew: not callable'')
   \<and> fst (run_crew_sync (framework_of (Some (Inl (Exception ''not callable''))))
          [(''topic'', ''s3''), (''query'', ''s3'')] fresh)
     \<noteq> Inl (Exception (''Error running pipeline: '' @ ''not callable''))
   \<and> snd (snd (run_crew_sync (framework_of (Some (Inl (Exception ''not callable''))))
          [(''topic'', ''s3''), (''query'', ''s3'')] fresh))
     = [(Construct_AWSCrew, None), (Call_crew, Some (Exception ''not callable''))]"
  by (simp add: unfold_service unfold_stubs)

text \<open>
  C4, amended. Any exception raised by a call that \<^verbatim>\<open>run_crew_sync\<close> makes, in either
  branch, is re-raised to the caller as an exception whose text is
  \<^verbatim>\<open>Error running crew: \<close> followed by the original error text; an exception that
  \<^verbatim>\<open>run_crew_sync\<close> raises is always of that form, for the exception raised by the last
  call it made; and there is no retry: a run calls \<^verbatim>\<open>kickoff\<close> at most once.
\<close>

theorem failure_wrapped_no_retry:
  assumes "run_crew_sync fw inputs g = (r, g', tr)"
  shows "(\<forall>c e. (c, Some e) \<in> set tr
            \<longrightarrow> r = Inl (Exception (''Error running crew: '' @ str_exc e)))
       \<and> (\<forall>e'. r = Inl e' \<longrightarrow> (\<exists>c e. tr \<noteq> [] \<and> last tr = (c, Some e)
            \<and> e' = Exception (''Error running crew: '' @ str_exc e)))
       \<and> length (filter (\<lambda>ev. is_kickoff (fst ev)) tr) \<le> 1"
proof (intro conjI)
  show "\<forall>c e. (c, Some e) \<in> set tr
            \<longrightarrow> r = Inl (Exception (''Error running crew: '' @ str_exc e))"
    using assms
    by (auto simp: unfold_service split: option.splits sum.splits prod.splits if_splits)
  show "\<forall>e'. r = Inl e' \<longrightarrow> (\<exists>c e. tr \<noteq> [] \<and> last tr = (c, Some e)
            \<and> e' = Exception (''Error running crew: '' @ str_exc e))"
    using assms
    by (auto simp: unfold_service split: option.splits sum.splits prod.splits if_splits)
  show "length (filter (\<lambda>ev. is_kickoff (fst ev)) tr) \<le> 1"
    using assms
    by (auto simp: unfold_service is_kickoff_def
        split: option.splits sum.splits prod.splits if_splits)
qed

theorem failure_wrapped_no_retry_witness:
  "(Call_kickoff [(''topic'', ''vpc''), (''query'', ''vpc peering'')],
      Some (Exception ''quota exceeded''))
     \<in> set (snd (snd (run_crew_sync (framework_of (Some (Inr failing_crew)))
                        [(''topic'', ''vpc''), (''query'', ''vpc peering'')] fresh)))
   \<and> fst (run_crew_sync (framework_of (Some (Inr failing_crew)))
            [(''topic'', ''vpc''), (''query'', ''vpc peering'')] fresh)
     = Inl (Exception ''Error running crew: quota exceeded'')
   \<and> length (filter (\<lambda>ev. is_kickoff (fst ev))
        (snd (snd (run_crew_sync (framework_of (Some (Inr failing_crew)))
                        [(''topic'', ''vpc''), (''query'', ''vpc peering'')] fresh)))) \<le> 1"
proof -
  let ?run = "run_crew_sync (framework_of (Some (Inr failing_crew)))
                [(''topic'', ''vpc''), (''query'', ''vpc peering'')] fresh"
  have a: "(Call_kickoff [(''topic'', ''vpc''), (''query'', ''vpc peering'')],
      Some (Exception ''quota exceeded'')) \<in> set (snd (snd ?run))"
    by (simp add: unfold_service unfold_stubs)
  note inst = failure_wrapped_no_retry [OF triple_eq, of "framework_of (Some (Inr failing_crew))"
      "[(''topic'', ''vpc''), (''query'', ''vpc peering'')]" fresh]
  from inst a have "fst ?run = Inl (Exception (''Error running crew: ''
      @ str_exc (Exception ''quota exceeded'')))"
    by blast
  then have b: "fst ?run = Inl (Exception ''Error running crew: quota exceeded'')"
    by simp
  from inst have c: "length (filter (\<lambda>ev. is_kickoff (fst ev)) (snd (snd ?run))) \<le> 1"
    by blast
  from a b c show ?thesis by blast
qed

text \<open>
  C5. For every request, \<^verbatim>\<open>process_query\<close> hands \<^verbatim>\<open>run_crew_sync\<close> the inputs whose query
  is the request's query, unchanged, and whose topic is the request's query when the
  topic is omitted (or empty) and the request's topic when one is supplied; the response
  is the envelope of that run's outcome. The inputs are what \<^verbatim>\<open>kickoff\<close> receives: no
  \<^verbatim>\<open>kickoff\<close> is called with any other inputs, and \<^verbatim>\<open>kickoff\<close> is called with them whenever
  the handle is obtained and its \<^verbatim>\<open>crew()\<close> returns a pipeline. (None of this needs the
  query to be non-empty.)
\<close>

theorem topic_defaults_to_query:
  assumes "topic request = None \<and> tpc = query request
           \<or> topic request = Some [] \<and> tpc = query request
           \<or> topic request = Some tpc \<and> tpc \<noteq> []"
  shows "process_query fw request g =
           (case run_crew_sync fw [(''topic'', tpc), (''query'', query request)] g of
              (Inr res, g1, t1) \<Rightarrow> (Inr \<lparr>success = True, result = res, error = None\<rparr>, g1, t1)
            | (Inl e, g1, t1) \<Rightarrow>
                (Inr \<lparr>success = False, result = [], error = Some (str_exc e)\<rparr>, g1, t1))
       \<and> (\<forall>inputs out. (Call_kickoff inputs, out) \<in> set (snd (snd (process_query fw request g)))
             \<longrightarrow> inputs = [(''topic'', tpc), (''query'', query request)])
       \<and> ((\<exists>ci c. fst (get_crew_instance fw g) = Inr ci \<and> crew ci = Some (Inr c))
             \<longrightarrow> (\<exists>out. (Call_kickoff [(''topic'', tpc), (''query'', query request)], out)
                         \<in> set (snd (snd (process_query fw request g)))))"
proof -
  have tpc: "(if truthy (topic request) then the (topic request) else query request) = tpc"
    using assms by (auto simp: truthy_def)
  have eq: "process_query fw request g =
           (case run_crew_sync fw [(''topic'', tpc), (''query'', query request)] g of
              (Inr res, g1, t1) \<Rightarrow> (Inr \<lparr>success = True, result = res, error = None\<rparr>, g1, t1)
            | (Inl e, g1, t1) \<Rightarrow>
                (Inr \<lparr>success = False, result = [], error = Some (str_exc e)\<rparr>, g1, t1))"
    using process_query_run [of fw request g] by (simp only: tpc)
  have tr: "snd (snd (process_query fw request g))
     = snd (snd (run_crew_sync fw [(''topic'', tpc), (''query'', query request)] g))"
    using process_query_trace [of fw request g] by (simp only: tpc)
  have only: "\<forall>inputs out. (Call_kickoff inputs, out) \<in> set (snd (snd (process_query fw request g)))
             \<longrightarrow> inputs = [(''topic'', tpc), (''query'', query request)]"
    unfolding tr using kickoff_inputs [OF triple_eq] by blast
  have reached: "(\<exists>ci c. fst (get_crew_instance fw g) = Inr ci \<and> crew ci = Some (Inr c))
             \<longrightarrow> (\<exists>out. (Call_kickoff [(''topic'', tpc), (''query'', query request)], out)
                         \<in> set (snd (snd (process_query fw request g))))"
    unfolding tr using kickoff_reached_primary by blast
  from eq only reached show ?thesis by (intro conjI)
qed

theorem topic_defaults_to_query_witness:
  "topic \<lparr>query = ''How do I secure an S3 bucket?'', topic = None\<rparr> = None
   \<and> fst (get_crew_instance (framework_of (Some (Inr echo_crew))) fresh)
       = Inr (handle_of (Some (Inr echo_crew)))
   \<and> crew (handle_of (Some (Inr echo_crew))) = Some (Inr echo_crew)
   \<and> (\<exists>out. (Call_kickoff [(''topic'', ''How do I secure an S3 bucket?''),
                           (''query'', ''How do I secure an S3 bucket?'')], out)
         \<in> set (snd (snd (process_query (framework_of (Some (Inr echo_crew)))
               \<lparr>query = ''How do I secure an S3 bucket?'', topic = None\<rparr> fresh))))
   \<and> topic \<lparr>query = ''bucket policy'', topic = Some ''s3''\<rparr> = Some ''s3''
   \<and> (\<exists>out. (Call_kickoff [(''topic'', ''s3''), (''query'', ''bucket policy'')], out)
         \<in> set (snd (snd (process_query (framework_of (Some (Inr echo_crew)))
               \<lparr>query = ''bucket policy'', topic = Some ''s3''\<rparr> fresh))))
   \<and> fst (process_query (framework_of (Some (Inr echo_crew)))
               \<lparr>query = ''bucket policy'', topic = Some ''s3''\<rparr> fresh)
       = Inr \<lparr>success = True, result = ''report on: s3'', error = None\<rparr>"
proof -
  let ?fw = "framework_of (Some (Inr echo_crew))"
  let ?omitted = "\<lparr>query = ''How do I secure an S3 bucket?'', topic = None\<rparr>"
  let ?both = "\<lparr>query = ''bucket policy'', topic = Some ''s3''\<rparr>"
  have h: "fst (get_crew_instance ?fw fresh) = Inr (handle_of (Some (Inr echo_crew)))"
    by (simp add: get_crew_instance_def and_then_def external_def framework_of_def fresh_def)
  have c: "crew (handle_of (Some (Inr echo_crew))) = Some (Inr echo_crew)"
    by (simp add: handle_of_def)
  have o: "topic ?omitted = None \<and> ''How do I secure an S3 bucket?'' = query ?omitted
           \<or> topic ?omitted = Some [] \<and> ''How do I secure an S3 bucket?'' = query ?omitted
           \<or> topic ?omitted = Some ''How do I secure an S3 bucket?''
              \<and> ''How do I secure an S3 bucket?'' \<noteq> []"
    by simp
  have b: "topic ?both = None \<and> ''s3'' = query ?both
           \<or> topic ?both = Some [] \<and> ''s3'' = query ?both
           \<or> topic ?both = Some ''s3'' \<and> ''s3'' \<noteq> []"
    by simp
  have ex: "\<exists>ci c. fst (get_crew_instance ?fw fresh) = Inr ci \<and> crew ci = Some (Inr c)"
    using h c by blast
  have qo: "query ?omitted = ''How do I secure an S3 bucket?''"
    by simp
  have qb: "query ?both = ''bucket policy''"
    by simp
  note first = topic_defaults_to_query [OF o, of ?fw fresh]
  note second = topic_defaults_to_query [OF b, of ?fw fresh]
  from first [THEN conjunct2, THEN conjunct2, THEN mp, OF ex]
  have "\<exists>out. (Call_kickoff [(''topic'', ''How do I secure an S3 bucket?''),
                           (''query'', query ?omitted)], out)
         \<in> set (snd (snd (process_query ?fw ?omitted fresh)))" .
  then have 1: "\<exists>out. (Call_kickoff [(''topic'', ''How do I secure an S3 bucket?''),
                           (''query'', ''How do I secure an S3 bucket?'')], out)
         \<in> set (snd (snd (process_query ?fw ?omitted fresh)))"
    by (simp only: qo)
  from second [THEN conjunct2, THEN conjunct2, THEN mp, OF ex]
  have "\<exists>out. (Call_kickoff [(''topic'', ''s3''), (''query'', query ?both)], out)
         \<in> set (snd (snd (process_query ?fw ?both fresh)))" .
  then have 2: "\<exists>out. (Call_kickoff [(''topic'', ''s3''), (''query'', ''bucket policy'')], out)
         \<in> set (snd (snd (process_query ?fw ?both fresh)))"
    by (simp only: qb)
  from second [THEN conjunct1] have "process_query ?fw ?both fresh
       = (case run_crew_sync ?fw [(''topic'', ''s3''), (''query'', query ?both)] fresh of
              (Inr res, g1, t1) \<Rightarrow> (Inr \<lparr>success = True, result = res, error = None\<rparr>, g1, t1)
            | (Inl e, g1, t1) \<Rightarrow>
                (Inr \<lparr>success = False, result = [], error = Some (str_exc e)\<rparr>, g1, t1))" .
  moreover have "run_crew_sync ?fw [(''topic'', ''s3''), (''query'', query ?both)] fresh
       = (Inr ''report on: s3'', \<lparr>crew_instance = Some (handle_of (Some (Inr echo_crew)))\<rparr>,
          [(Construct_AWSCrew, None), (Call_crew, None),
           (Call_kickoff [(''topic'', ''s3''), (''query'', ''bucket policy'')], None)])"
    by (simp add: unfold_service unfold_stubs)
  ultimately have 3: "fst (process_query ?fw ?both fresh)
       = Inr \<lparr>success = True, result = ''report on: s3'', error = None\<rparr>"
    by (simp only: prod.case sum.case fst_conv)
  have to: "topic ?omitted = None" by simp
  have tb: "topic ?both = Some ''s3''" by simp
  from to h c 1 tb 2 3 show ?thesis by (intro conjI)
qed



text \<open>
  C8. \<^verbatim>\<open>health_check\<close> returns the same body, whose \<^verbatim>\<open>status\<close> is \<^verbatim>\<open>healthy\<close>, in every
  state of the globals; it raises nothing, makes no call on the framework (so it does
  not construct the handle) and leaves the globals, \<^verbatim>\<open>crew_instance\<close> among them, as
  they were.
\<close>

theorem health_check_static:
  "health_check g
     = (Inr [(''status'', ''healthy''), (''message'', ''AWS Expert API is running'')], g, [])
   \<and> map_of (projr (fst (health_check g))) ''status'' = Some ''healthy''
   \<and> crew_instance (fst (snd (health_check g))) = crew_instance g"
  by (simp add: health_check_def returns_def)

end
